theory Spec2Isabelle
  imports Complex_Main "HOL-Library.Sublist"
begin

section \<open>Strings and numbers of the source language\<close>

text \<open>
  The stores are TypeScript classes. A JavaScript string is modelled as a HOL \<open>string\<close>
  whose characters are the code units \<open>0..255\<close> (Latin-1 text); \<open>charCodeAt\<close> is
  \<open>of_char\<close>. A JavaScript number is modelled as a \<open>real\<close>: the scores of the keyword
  search are quotients of two small counts, and \<open>1 - score\<close> is compared only with
  such quotients.
\<close>

text \<open>The characters below 256 that the regular expression class \<open>\s\<close> matches:
  tab, line feed, vertical tab, form feed, carriage return, space, no-break space.\<close>

definition is_space :: "char \<Rightarrow> bool" where
  "is_space c = (of_char c \<in> {9, 10, 11, 12, 13, 32, 160 :: nat})"

text \<open>\<open>String.prototype.toLowerCase\<close> on Latin-1 text: \<open>A..Z\<close> and the accented capitals
  \<open>0xC0..0xDE\<close> (without the multiplication sign \<open>0xD7\<close>) move up by 32.\<close>

definition lower_char :: "char \<Rightarrow> char" where
  "lower_char c =
     (let n = (of_char c :: nat)
      in if (65 \<le> n \<and> n \<le> 90) \<or> (192 \<le> n \<and> n \<le> 222 \<and> n \<noteq> 215)
         then char_of (n + 32) else c)"

definition toLowerCase :: "string \<Rightarrow> string" where
  "toLowerCase s = map lower_char s"

text \<open>\<open>s.split(/\s+/)\<close>: the separators are the maximal runs of white space. A leading
  or trailing run leaves an empty first or last word, and the empty string splits into
  one empty word, so the result is never empty. \<open>insep\<close> says that the previous
  character belonged to a separator; \<open>cur\<close> is the current word, reversed.\<close>

fun split_go :: "bool \<Rightarrow> string \<Rightarrow> string \<Rightarrow> string list" where
  "split_go insep cur [] = [rev cur]"
| "split_go insep cur (c # cs) =
     (if is_space c
      then (if insep then split_go True cur cs else rev cur # split_go True [] cs)
      else split_go False (c # cur) cs)"

definition split_ws :: "string \<Rightarrow> string list" where
  "split_ws s = split_go False [] s"

text \<open>\<open>t.includes(w)\<close>: \<open>w\<close> occurs in \<open>t\<close> as a contiguous substring.\<close>

fun startsWith :: "string \<Rightarrow> string \<Rightarrow> bool" where
  "startsWith t [] = True"
| "startsWith [] (w # ws) = False"
| "startsWith (c # cs) (w # ws) = (c = w \<and> startsWith cs ws)"

fun str_includes :: "string \<Rightarrow> string \<Rightarrow> bool" where
  "str_includes [] w = (w = [])"
| "str_includes (c # cs) w = (startsWith (c # cs) w \<or> str_includes cs w)"

text \<open>\<open>xs.slice(0, n)\<close> for an integral \<open>n\<close>: a negative \<open>n\<close> counts from the end.\<close>

definition js_slice0 :: "'a list \<Rightarrow> int \<Rightarrow> 'a list" where
  "js_slice0 xs n = (if 0 \<le> n then take (nat n) xs else take (length xs - nat (- n)) xs)"

text \<open>\<open>xs.sort((a, b) => b.score - a.score)\<close>: \<open>Array.prototype.sort\<close> is stable, so this
  is the stable sort by descending score.\<close>

definition sort_by_score_desc :: "('a \<times> real) list \<Rightarrow> ('a \<times> real) list" where
  "sort_by_score_desc rs = sort_key (\<lambda>r. - snd r) rs"


section \<open>The common types (types.ts)\<close>

text \<open>Metadata is kept in its serialised (JSON) form; \<open>{}\<close> is the empty object.\<close>

type_synonym metadata = string

record document =
  doc_id :: string
  doc_text :: string
  doc_metadata :: "metadata option"

record search_result =
  documents :: "string list"
  metadatas :: "metadata list"
  distances :: "real list"

text \<open>\<open>VectorStoreConfig\<close>: only \<open>collectionName\<close> is read; both the configuration and
  the name are optional.\<close>

type_synonym config = "string option"

text \<open>\<open>config?.collectionName || 'clonewriter'\<close>: the empty string is falsy too.\<close>

definition collectionName_of :: "config \<Rightarrow> string" where
  "collectionName_of cfg =
     (case cfg of None \<Rightarrow> ''clonewriter'' | Some n \<Rightarrow> if n = [] then ''clonewriter'' else n)"

datatype error =
    FsError
  | ChromaNotRunning
  | ChromaRequestFailed
  | RedisModuleMissing
  | RedisError
  | RedisNotInitialized
  | MariaModuleMissing
  | MariaError
  | MariaNotInitialized
  | TypeError

definition empty_result :: search_result where
  "empty_result = \<lparr>documents = [], metadatas = [], distances = []\<rparr>"

text \<open>\<open>doc.metadata || {}\<close>\<close>

definition metadata_or_empty :: "metadata option \<Rightarrow> metadata" where
  "metadata_or_empty m = (case m of None \<Rightarrow> ''{}'' | Some v \<Rightarrow> v)"

text \<open>The keyword score of one text against the words of the query:
  \<open>queryWords.filter(word => textLower.includes(word)).length / queryWords.length\<close>.\<close>

definition score :: "string list \<Rightarrow> string \<Rightarrow> real" where
  "score queryWords txt =
     (let textLower = toLowerCase txt
      in real (length (filter (\<lambda>word. str_includes textLower word) queryWords))
           / real (length queryWords))"


section \<open>The file-based store (implementations/file-based.ts)\<close>

text \<open>
  The store keeps one JSON array in \<open>vector_store/documents.json\<close>. The storage file is
  missing, or cannot be read or parsed, or holds the array that \<open>saveDocuments\<close> wrote
  (the only writer of the file). \<open>mkdir_fails\<close> says that \<open>mkdir(storageDir)\<close> throws;
  \<open>write_throws = Some c\<close> says that \<open>writeFile\<close> throws and leaves \<open>c\<close> in the file.
  A file that another writer filled with JSON that is not an array is the subject of the
  section on any storage file below.
\<close>

datatype stored = Missing | Unreadable | Stored "document list"

record filesystem =
  mkdir_fails :: bool
  write_throws :: "stored option"
  content :: stored

text \<open>\<open>init\<close> has no handler around \<open>mkdir\<close>.\<close>

definition file_init :: "filesystem \<Rightarrow> (error + unit) \<times> filesystem" where
  "file_init fs = (if mkdir_fails fs then (Inl FsError, fs) else (Inr (), fs))"

definition file_healthCheck :: "filesystem \<Rightarrow> bool" where
  "file_healthCheck fs = (if mkdir_fails fs then False else True)"

text \<open>\<open>loadDocuments\<close> answers the empty array for a missing file and in its handler.\<close>

definition loadDocuments :: "filesystem \<Rightarrow> document list" where
  "loadDocuments fs = (case content fs of Stored docs \<Rightarrow> docs | Missing \<Rightarrow> [] | Unreadable \<Rightarrow> [])"

text \<open>The \<open>try\<close> block of \<open>saveDocuments\<close>: \<open>mkdir\<close>, then \<open>writeFile\<close>.\<close>

definition saveDocuments_try :: "filesystem \<Rightarrow> document list \<Rightarrow> (error + unit) \<times> filesystem" where
  "saveDocuments_try fs docs =
     (if mkdir_fails fs then (Inl FsError, fs)
      else case write_throws fs of
             Some c \<Rightarrow> (Inl FsError, fs\<lparr>content := c\<rparr>)
           | None \<Rightarrow> (Inr (), fs\<lparr>content := Stored docs\<rparr>))"

text \<open>\<open>saveDocuments\<close>: the handler prints the error with \<open>console.error\<close> and returns.\<close>

definition saveDocuments :: "filesystem \<Rightarrow> document list \<Rightarrow> (error + unit) \<times> filesystem" where
  "saveDocuments fs docs =
     (case saveDocuments_try fs docs of
        (Inl e, fs') \<Rightarrow> (Inr (), fs')
      | (Inr u, fs') \<Rightarrow> (Inr (), fs'))"

definition file_addDocuments :: "filesystem \<Rightarrow> document list \<Rightarrow> (error + unit) \<times> filesystem" where
  "file_addDocuments fs docs =
     (let existing = loadDocuments fs; updated = existing @ docs
      in saveDocuments fs updated)"

definition file_clearCollection :: "filesystem \<Rightarrow> (error + unit) \<times> filesystem" where
  "file_clearCollection fs = saveDocuments fs []"

definition file_getOrCreateCollection :: "config \<Rightarrow> filesystem \<Rightarrow> string \<times> nat" where
  "file_getOrCreateCollection cfg fs = (collectionName_of cfg, length (loadDocuments fs))"

text \<open>The ranking of \<open>queryDocuments\<close>, on the loaded documents: score every document,
  sort by descending score, keep the first \<open>nResults\<close>; when that is empty, take the
  first \<open>nResults\<close> documents with the score 0.3.\<close>

definition rank_documents :: "document list \<Rightarrow> string \<Rightarrow> int \<Rightarrow> (document \<times> real) list" where
  "rank_documents docs query nResults =
     (let queryLower = toLowerCase query;
          queryWords = split_ws queryLower;
          results = js_slice0 (sort_by_score_desc
                      (map (\<lambda>doc. (doc, score queryWords (doc_text doc))) docs)) nResults
      in if length results > 0 then results
         else map (\<lambda>doc. (doc, 3 / 10)) (js_slice0 docs nResults))"

definition file_queryDocuments :: "filesystem \<Rightarrow> string \<Rightarrow> int \<Rightarrow> error + search_result" where
  "file_queryDocuments fs query nResults =
     (let docs = loadDocuments fs
      in if length docs = 0 then Inr empty_result
         else let finalResults = rank_documents docs query nResults
              in Inr \<lparr>documents = map (\<lambda>r. doc_text (fst r)) finalResults,
                      metadatas = map (\<lambda>r. metadata_or_empty (doc_metadata (fst r))) finalResults,
                      distances = map (\<lambda>r. 1 - snd r) finalResults\<rparr>)"

text \<open>Test data: a healthy file system holding the given documents.\<close>

definition holding :: "document list \<Rightarrow> filesystem" where
  "holding docs = \<lparr>mkdir_fails = False, write_throws = None, content = Stored docs\<rparr>"

definition plain :: "string \<Rightarrow> string \<Rightarrow> document" where
  "plain i t = \<lparr>doc_id = i, doc_text = t, doc_metadata = None\<rparr>"


definition cats3 :: "document list" where
  "cats3 = [plain ''1'' ''cats are great'', plain ''2'' ''dogs are great'', plain ''3'' ''birds fly'']"

text \<open>A storage file that cannot be written (the write throws and leaves the file as
  it was), and a working directory in which \<open>vector_store\<close> cannot be created.\<close>

definition readonly :: "document list \<Rightarrow> filesystem" where
  "readonly docs = \<lparr>mkdir_fails = False, write_throws = Some (Stored docs), content = Stored docs\<rparr>"

definition no_directory :: filesystem where
  "no_directory = \<lparr>mkdir_fails = True, write_throws = None, content = Missing\<rparr>"

text \<open>The scored documents that \<open>queryDocuments\<close> sorts.\<close>

definition scored :: "string \<Rightarrow> document list \<Rightarrow> (document \<times> real) list" where
  "scored query docs = map (\<lambda>doc. (doc, score (split_ws (toLowerCase query)) (doc_text doc))) docs"


section \<open>The Redis store (implementations/redis.ts)\<close>

text \<open>
  The Redis server is an environment that answers the client's commands. A command
  either throws (\<open>None\<close>) or returns a reply. \<open>redis_module\<close> says that \<open>import('redis')\<close>
  succeeds, \<open>redis_connect\<close> that \<open>client.connect()\<close> does. \<open>redis_keys\<close> is the reply to
  \<open>KEYS collection:*\<close> together with the hash that \<open>hGetAll\<close> reads at each key, in the
  order of the reply; the hashes are those \<open>addDocuments\<close> wrote (fields \<open>text\<close> and a
  serialised \<open>metadata\<close>). \<open>ft_search\<close> is the outcome of the KNN query of \<open>FT.SEARCH\<close>.
\<close>

record redis_hash =
  h_text :: string
  h_metadata :: string

record knn_row =
  k_text :: string
  k_metadata :: string
  k_distance :: "real option"

record redis_server =
  redis_module :: bool
  redis_connect :: bool
  redis_ping :: "string option"
  ft_search :: "knn_row list option"
  redis_keys :: "(string \<times> redis_hash) list option"

text \<open>\<open>JSON.parse(s || '{}')\<close> on a serialised metadata.\<close>

definition parse_metadata :: "string \<Rightarrow> metadata" where
  "parse_metadata s = (if s = [] then ''{}'' else s)"

text \<open>\<open>parseFloat(doc.value.distance || '1.0')\<close>: Redis returns the distance as a string,
  \<open>None\<close> stands for a missing or empty one.\<close>

definition redis_distance :: "real option \<Rightarrow> real" where
  "redis_distance d = (case d of None \<Rightarrow> 1 | Some x \<Rightarrow> x)"

text \<open>The state of a \<open>RedisVectorStore\<close> is whether \<open>this.client\<close> is set. \<open>init\<close> sets it
  before it connects; \<open>createIndexIfNotExists\<close> swallows its errors.\<close>

definition redis_init :: "redis_server \<Rightarrow> bool \<Rightarrow> (error + unit) \<times> bool" where
  "redis_init srv client =
     (if \<not> redis_module srv then (Inl RedisModuleMissing, client)
      else if \<not> redis_connect srv then (Inl RedisError, True)
      else (Inr (), True))"

definition redis_healthCheck :: "redis_server \<Rightarrow> bool \<Rightarrow> bool" where
  "redis_healthCheck srv client =
     (if \<not> client
      then (if \<not> redis_module srv then False
            else if \<not> redis_connect srv then False
            else (case redis_ping srv of None \<Rightarrow> False | Some pong \<Rightarrow> pong = ''PONG''))
      else (case redis_ping srv of None \<Rightarrow> False | Some pong \<Rightarrow> pong = ''PONG''))"

definition redis_keywordSearch :: "redis_server \<Rightarrow> string \<Rightarrow> int \<Rightarrow> error + search_result" where
  "redis_keywordSearch srv query nResults =
     (case redis_keys srv of
        None \<Rightarrow> Inl RedisError
      | Some keys \<Rightarrow>
          let queryLower = toLowerCase query;
              queryWords = split_ws queryLower;
              results = map (\<lambda>(key, doc).
                          ((h_text doc, parse_metadata (h_metadata doc)),
                           score queryWords (h_text doc))) keys;
              topResults = js_slice0 (sort_by_score_desc results) nResults
          in Inr \<lparr>documents = map (\<lambda>r. fst (fst r)) topResults,
                  metadatas = map (\<lambda>r. snd (fst r)) topResults,
                  distances = map (\<lambda>r. 1 - snd r) topResults\<rparr>)"

definition redis_queryDocuments ::
  "redis_server \<Rightarrow> bool \<Rightarrow> string \<Rightarrow> int \<Rightarrow> error + search_result" where
  "redis_queryDocuments srv client query nResults =
     (if \<not> client then Inl RedisNotInitialized
      else case ft_search srv of
             Some rows \<Rightarrow>
               Inr \<lparr>documents = map k_text rows,
                    metadatas = map (\<lambda>doc. parse_metadata (k_metadata doc)) rows,
                    distances = map (\<lambda>doc. redis_distance (k_distance doc)) rows\<rparr>
           | None \<Rightarrow> redis_keywordSearch srv query nResults)"

text \<open>Test data: a server whose KNN query throws, holding the given texts.\<close>

definition hash_of :: "string \<Rightarrow> string \<times> redis_hash" where
  "hash_of t = (''clonewriter:'' @ t, \<lparr>h_text = t, h_metadata = ''{}''\<rparr>)"

definition knn_down :: "string list \<Rightarrow> redis_server" where
  "knn_down texts = \<lparr>redis_module = True, redis_connect = True, redis_ping = Some ''PONG'',
                      ft_search = None, redis_keys = Some (map hash_of texts)\<rparr>"

section \<open>The MariaDB store (implementations/mariadb.ts)\<close>

text \<open>\<open>checkVectorSupport\<close>: the regular expression \<open>^(\d+)\.(\d+)\<close> matches when the
  string starts with a non-empty run of decimal digits, a dot, and a further digit; the
  groups are the two maximal runs of digits. \<open>parseInt\<close> of a run of digits is its decimal
  value (its rounding of very long runs does not change the comparisons with 11 and 6).\<close>

definition is_digit :: "char \<Rightarrow> bool" where
  "is_digit c = (48 \<le> (of_char c :: nat) \<and> (of_char c :: nat) \<le> 57)"

definition parseInt :: "string \<Rightarrow> nat" where
  "parseInt ds = foldl (\<lambda>a c. 10 * a + (of_char c - 48)) 0 ds"

definition match_version :: "string \<Rightarrow> (string \<times> string) option" where
  "match_version version =
     (let g1 = takeWhile is_digit version; rest = dropWhile is_digit version
      in if g1 = [] then None
         else case rest of
                [] \<Rightarrow> None
              | c # rest' \<Rightarrow>
                  if c \<noteq> CHR ''.'' then None
                  else let g2 = takeWhile is_digit rest'
                       in if g2 = [] then None else Some (g1, g2))"

definition checkVectorSupport :: "string \<Rightarrow> bool" where
  "checkVectorSupport version =
     (case match_version version of
        None \<Rightarrow> False
      | Some (g1, g2) \<Rightarrow>
          let major = parseInt g1; minor = parseInt g2
          in major > 11 \<or> (major = 11 \<and> minor \<ge> 6))"

text \<open>
  The MariaDB server is an environment that answers the statements of the connection:
  whether a statement succeeds, and the rows of the three queries the store reads.
  \<open>version_reply = None\<close>: \<open>SELECT VERSION()\<close> throws; \<open>Some None\<close>: the first row has no
  version. The store logs the statements it sends.
\<close>

datatype sql =
    CreateDatabase
  | UseDatabase
  | SelectVersion
  | CreateTableVector
  | CreateTableJson
  | SelectOne
  | SelectCount
  | InsertRow
  | SelectByDistance
  | SelectLike
  | DeleteAll

record sql_row =
  row_text :: string
  row_metadata :: string
  row_distance :: "real option"

record maria_server =
  maria_module :: bool
  maria_connect :: bool
  create_database_ok :: bool
  use_database_ok :: bool
  version_reply :: "string option option"
  create_table_ok :: bool
  select_one_ok :: bool
  count_reply :: "nat option"
  insert_ok :: bool
  distance_reply :: "sql_row list option"
  like_reply :: "sql_row list option"
  delete_ok :: bool

text \<open>The state of a \<open>MariaDBVectorStore\<close>: whether \<open>this.connection\<close> is set, and the
  statements sent so far (the latest last).\<close>

record maria_store =
  connection :: bool
  sent :: "sql list"

definition send :: "sql \<Rightarrow> maria_store \<Rightarrow> maria_store" where
  "send q st = st\<lparr>sent := sent st @ [q]\<rparr>"

text \<open>\<open>createTableIfNotExists\<close>. Without a connection the first call on it throws inside
  the \<open>try\<close>, and the handler throws again.\<close>

definition createTableIfNotExists :: "maria_server \<Rightarrow> maria_store \<Rightarrow> (error + unit) \<times> maria_store" where
  "createTableIfNotExists srv st =
     (if \<not> connection st then (Inl MariaError, st)
      else case version_reply srv of
             None \<Rightarrow> (Inl MariaError, send SelectVersion st)
           | Some v \<Rightarrow>
               let version = (case v of None \<Rightarrow> [] | Some s \<Rightarrow> s);
                   hasVectorSupport = checkVectorSupport version;
                   st1 = send SelectVersion st;
                   st2 = send (if hasVectorSupport then CreateTableVector else CreateTableJson) st1
               in if create_table_ok srv then (Inr (), st2) else (Inl MariaError, st2))"

definition maria_init :: "maria_server \<Rightarrow> maria_store \<Rightarrow> (error + unit) \<times> maria_store" where
  "maria_init srv st =
     (if \<not> maria_module srv then (Inl MariaModuleMissing, st)
      else if \<not> maria_connect srv then (Inl MariaError, st)
      else let st1 = send CreateDatabase (st\<lparr>connection := True\<rparr>)
           in if \<not> create_database_ok srv then (Inl MariaError, st1)
              else let st2 = send UseDatabase st1
                   in if \<not> use_database_ok srv then (Inl MariaError, st2)
                      else createTableIfNotExists srv st2)"

text \<open>\<open>healthCheck\<close>: without a connection it opens, probes and closes one of its own.\<close>

definition maria_healthCheck :: "maria_server \<Rightarrow> maria_store \<Rightarrow> bool \<times> maria_store" where
  "maria_healthCheck srv st =
     (if \<not> connection st
      then (if \<not> maria_module srv then (False, st)
            else if \<not> maria_connect srv then (False, st)
            else (select_one_ok srv, send SelectOne st))
      else (select_one_ok srv, send SelectOne st))"

definition maria_getOrCreateCollection ::
  "config \<Rightarrow> maria_server \<Rightarrow> maria_store \<Rightarrow> (error + string \<times> nat) \<times> maria_store" where
  "maria_getOrCreateCollection cfg srv st =
     (case (if connection st then count_reply srv else None) of
        Some n \<Rightarrow> (Inr (collectionName_of cfg, n), send SelectCount st)
      | None \<Rightarrow>
          (case createTableIfNotExists srv (if connection st then send SelectCount st else st) of
             (Inl e, st') \<Rightarrow> (Inl e, st')
           | (Inr u, st') \<Rightarrow> (Inr (collectionName_of cfg, 0), st')))"

text \<open>\<open>addDocuments\<close> inserts the documents one by one and stops at the first failure.\<close>

definition maria_addDocuments ::
  "maria_server \<Rightarrow> maria_store \<Rightarrow> document list \<Rightarrow> (error + unit) \<times> maria_store" where
  "maria_addDocuments srv st docs =
     (if \<not> connection st then (Inl MariaNotInitialized, st)
      else if docs = [] then (Inr (), st)
      else if insert_ok srv then (Inr (), st\<lparr>sent := sent st @ map (\<lambda>doc. InsertRow) docs\<rparr>)
      else (Inl MariaError, send InsertRow st))"

text \<open>\<open>parseFloat(row.distance || '1.0')\<close>: the driver returns a number, and the number 0
  is falsy as well.\<close>

definition maria_distance :: "real option \<Rightarrow> real" where
  "maria_distance d = (case d of None \<Rightarrow> 1 | Some x \<Rightarrow> if x = 0 then 1 else x)"

definition maria_keywordSearch ::
  "maria_server \<Rightarrow> maria_store \<Rightarrow> string \<Rightarrow> int \<Rightarrow> (error + search_result) \<times> maria_store" where
  "maria_keywordSearch srv st query nResults =
     (case like_reply srv of
        None \<Rightarrow> (Inl MariaError, send SelectLike st)
      | Some rows \<Rightarrow>
          (Inr \<lparr>documents = map row_text rows,
                metadatas = map (\<lambda>row. parse_metadata (row_metadata row)) rows,
                distances = map (\<lambda>row. 1 / 2) rows\<rparr>, send SelectLike st))"

definition maria_queryDocuments ::
  "maria_server \<Rightarrow> maria_store \<Rightarrow> string \<Rightarrow> int \<Rightarrow> (error + search_result) \<times> maria_store" where
  "maria_queryDocuments srv st query nResults =
     (if \<not> connection st then (Inl MariaNotInitialized, st)
      else case distance_reply srv of
             Some rows \<Rightarrow>
               (Inr \<lparr>documents = map row_text rows,
                     metadatas = map (\<lambda>row. parse_metadata (row_metadata row)) rows,
                     distances = map (\<lambda>row. maria_distance (row_distance row)) rows\<rparr>,
                send SelectByDistance st)
           | None \<Rightarrow> maria_keywordSearch srv (send SelectByDistance st) query nResults)"

definition maria_clearCollection :: "maria_server \<Rightarrow> maria_store \<Rightarrow> (error + unit) \<times> maria_store" where
  "maria_clearCollection srv st =
     (if \<not> connection st then (Inl MariaNotInitialized, st)
      else if delete_ok srv then (Inr (), send DeleteAll st)
      else (Inl MariaError, send DeleteAll st))"

text \<open>Test data: a server that answers every statement, with the given version.\<close>

definition maria_version :: "string \<Rightarrow> maria_server" where
  "maria_version v =
     \<lparr>maria_module = True, maria_connect = True, create_database_ok = True,
      use_database_ok = True, version_reply = Some (Some v), create_table_ok = True,
      select_one_ok = True, count_reply = Some 0, insert_ok = True,
      distance_reply = Some [], like_reply = Some [], delete_ok = True\<rparr>"

definition fresh_maria :: maria_store where
  "fresh_maria = \<lparr>connection = False, sent = []\<rparr>"


section \<open>The ChromaDB store (implementations/chromadb.ts)\<close>

text \<open>The ChromaDB server answers each HTTP request: \<open>fetch\<close> throws, or the response is
  not \<open>ok\<close>, or it is \<open>ok\<close> with a body.\<close>

datatype 'a reply = Throws | NotOk | Ok 'a

record chroma_payload =
  q_documents :: "string list list"
  q_metadatas :: "metadata list list"
  q_distances :: "real list list"

record chroma_server =
  heartbeat :: "unit reply"
  get_collection :: "unit reply"
  count_collection :: "nat reply"
  create_collection :: "unit reply"
  query_reply :: "chroma_payload reply"

text \<open>The state of a \<open>ChromaDBVectorStore\<close> is whether \<open>this.collection\<close> is set.\<close>

definition chroma_healthCheck :: "chroma_server \<Rightarrow> bool" where
  "chroma_healthCheck srv = (case heartbeat srv of Ok u \<Rightarrow> True | NotOk \<Rightarrow> False | Throws \<Rightarrow> False)"

definition chroma_getOrCreateCollection ::
  "config \<Rightarrow> chroma_server \<Rightarrow> bool \<Rightarrow> (error + string \<times> nat option) \<times> bool" where
  "chroma_getOrCreateCollection cfg srv collection =
     (case get_collection srv of
        Throws \<Rightarrow> (Inl ChromaRequestFailed, collection)
      | Ok u \<Rightarrow>
          (case count_collection srv of
             Throws \<Rightarrow> (Inl ChromaRequestFailed, True)
           | NotOk \<Rightarrow> (Inr (collectionName_of cfg, None), True)
           | Ok n \<Rightarrow> (Inr (collectionName_of cfg, Some n), True))
      | NotOk \<Rightarrow>
          (case create_collection srv of
             Throws \<Rightarrow> (Inl ChromaRequestFailed, collection)
           | NotOk \<Rightarrow> (Inl ChromaRequestFailed, collection)
           | Ok u \<Rightarrow> (Inr (collectionName_of cfg, Some 0), True)))"

text \<open>\<open>init\<close> throws when the health check fails.\<close>

definition chroma_init :: "config \<Rightarrow> chroma_server \<Rightarrow> bool \<Rightarrow> (error + unit) \<times> bool" where
  "chroma_init cfg srv collection =
     (let isHealthy = chroma_healthCheck srv
      in if \<not> isHealthy then (Inl ChromaNotRunning, collection)
         else case chroma_getOrCreateCollection cfg srv collection of
                (Inl e, c) \<Rightarrow> (Inl e, c)
              | (Inr r, c) \<Rightarrow> (Inr (), c))"





section \<open>The factory (factory.ts)\<close>

datatype store_type = File | Chroma | Redis | MariaDB

text \<open>An instance of one of the four classes, with its configuration and its state.\<close>

datatype store =
    FileStore config
  | ChromaStore config bool
  | RedisStore config bool
  | MariaStore config maria_store

text \<open>Everything outside the process: the file system and the three servers. Their
  answers stay the same during the calls considered.\<close>

record world =
  files :: filesystem
  chroma :: chroma_server
  redis :: redis_server
  maria :: maria_server

text \<open>The two static fields of \<open>VectorStoreFactory\<close>.\<close>

record factory =
  instance_of :: "store option"
  currentType :: "store_type option"

text \<open>What the factory prints and does, in order: the two \<open>console.log\<close> lines, the
  \<open>console.warn\<close> of the fallback, the constructor calls, and the calls of \<open>init\<close> and
  \<open>healthCheck\<close> on an instance of the given class.\<close>

datatype event =
    LogInitializing store_type
  | LogCreating store_type
  | WarnHealthCheckFailed store_type
  | New store_type
  | CallInit store_type
  | CallHealthCheck store_type

text \<open>\<open>getConfiguredType\<close>, from the value of \<open>VECTOR_STORE_TYPE\<close>.\<close>

definition getConfiguredType :: "string option \<Rightarrow> store_type" where
  "getConfiguredType env =
     (let t = toLowerCase (case env of None \<Rightarrow> ''file'' | Some v \<Rightarrow> if v = [] then ''file'' else v)
      in if t = ''chroma'' then Chroma
         else if t = ''redis'' then Redis
         else if t = ''mariadb'' then MariaDB
         else File)"

definition create :: "store_type \<Rightarrow> config \<Rightarrow> store" where
  "create storeType cfg =
     (case storeType of
        Chroma \<Rightarrow> ChromaStore cfg False
      | Redis \<Rightarrow> RedisStore cfg False
      | MariaDB \<Rightarrow> MariaStore cfg \<lparr>connection = False, sent = []\<rparr>
      | File \<Rightarrow> FileStore cfg)"

text \<open>The methods of \<open>IVectorStore\<close> that the factory calls, dispatched on the class.\<close>

fun store_init :: "world \<Rightarrow> store \<Rightarrow> (error + unit) \<times> store" where
  "store_init w (FileStore cfg) = (fst (file_init (files w)), FileStore cfg)"
| "store_init w (ChromaStore cfg c) =
     (case chroma_init cfg (chroma w) c of (r, c') \<Rightarrow> (r, ChromaStore cfg c'))"
| "store_init w (RedisStore cfg c) =
     (case redis_init (redis w) c of (r, c') \<Rightarrow> (r, RedisStore cfg c'))"
| "store_init w (MariaStore cfg st) =
     (case maria_init (maria w) st of (r, st') \<Rightarrow> (r, MariaStore cfg st'))"

fun store_healthCheck :: "world \<Rightarrow> store \<Rightarrow> bool \<times> store" where
  "store_healthCheck w (FileStore cfg) = (file_healthCheck (files w), FileStore cfg)"
| "store_healthCheck w (ChromaStore cfg c) = (chroma_healthCheck (chroma w), ChromaStore cfg c)"
| "store_healthCheck w (RedisStore cfg c) = (redis_healthCheck (redis w) c, RedisStore cfg c)"
| "store_healthCheck w (MariaStore cfg st) =
     (case maria_healthCheck (maria w) st of (h, st') \<Rightarrow> (h, MariaStore cfg st'))"

fun store_type_of :: "store \<Rightarrow> store_type" where
  "store_type_of (FileStore cfg) = File"
| "store_type_of (ChromaStore cfg c) = Chroma"
| "store_type_of (RedisStore cfg c) = Redis"
| "store_type_of (MariaStore cfg st) = MariaDB"

text \<open>The name that \<open>getOrCreateCollection\<close> of an instance reports.\<close>

fun store_collectionName :: "store \<Rightarrow> string" where
  "store_collectionName (FileStore cfg) = collectionName_of cfg"
| "store_collectionName (ChromaStore cfg c) = collectionName_of cfg"
| "store_collectionName (RedisStore cfg c) = collectionName_of cfg"
| "store_collectionName (MariaStore cfg st) = collectionName_of cfg"

text \<open>\<open>getInstance(type, config)\<close>. The result is the returned instance or the error
  thrown, the static fields afterwards, and the events of the call. \<open>initialize\<close> is the
  block run when there is no instance or the type changed: the fields are assigned
  before \<open>init\<close> is awaited, and no handler surrounds \<open>init\<close>.\<close>

definition initialize ::
  "world \<Rightarrow> store_type \<Rightarrow> config \<Rightarrow> (error + store) \<times> factory \<times> event list" where
  "initialize w requestedType cfg =
     (let (r, inst) = store_init w (create requestedType cfg);
          f1 = \<lparr>instance_of = Some inst, currentType = Some requestedType\<rparr>;
          tr1 = [LogInitializing requestedType, LogCreating requestedType,
                 New requestedType, CallInit requestedType]
      in case r of
           Inl e \<Rightarrow> (Inl e, f1, tr1)
         | Inr u \<Rightarrow>
             let (isHealthy, inst') = store_healthCheck w inst;
                 f2 = \<lparr>instance_of = Some inst', currentType = Some requestedType\<rparr>;
                 tr2 = tr1 @ [CallHealthCheck requestedType]
             in if \<not> isHealthy
                then
                  let (r', fb) = store_init w (FileStore cfg);
                      f3 = \<lparr>instance_of = Some fb, currentType = Some File\<rparr>;
                      tr3 = tr2 @ [WarnHealthCheckFailed requestedType, New File, CallInit File]
                  in (case r' of Inl e \<Rightarrow> (Inl e, f3, tr3) | Inr u' \<Rightarrow> (Inr fb, f3, tr3))
                else (Inr inst', f2, tr2))"

definition getInstance ::
  "world \<Rightarrow> string option \<Rightarrow> store_type option \<Rightarrow> config \<Rightarrow> factory
     \<Rightarrow> (error + store) \<times> factory \<times> event list" where
  "getInstance w env type cfg f =
     (let requestedType = (case type of Some t \<Rightarrow> t | None \<Rightarrow> getConfiguredType env)
      in case instance_of f of
           None \<Rightarrow> initialize w requestedType cfg
         | Some inst \<Rightarrow>
             if currentType f \<noteq> Some requestedType then initialize w requestedType cfg
             else (Inr inst, f, []))"

text \<open>\<open>reset\<close>, which is also the state of the fields when the module is loaded.\<close>

definition reset :: factory where
  "reset = \<lparr>instance_of = None, currentType = None\<rparr>"

text \<open>Test data: worlds in which the file system works and no server runs
  (\<open>chroma_stopped\<close>: every \<open>fetch\<close> throws), or the Redis server alone accepts the
  connection and then \<open>PING\<close> throws (\<open>redis_mute\<close>).\<close>

definition chroma_off :: chroma_server where
  "chroma_off = \<lparr>heartbeat = Throws, get_collection = Throws, count_collection = Throws,
                  create_collection = Throws, query_reply = Throws\<rparr>"

definition redis_off :: redis_server where
  "redis_off = \<lparr>redis_module = True, redis_connect = False, redis_ping = None,
                 ft_search = None, redis_keys = None\<rparr>"

definition maria_off :: maria_server where
  "maria_off = (maria_version [])\<lparr>maria_connect := False\<rparr>"

definition chroma_stopped :: world where
  "chroma_stopped = \<lparr>files = holding [], chroma = chroma_off, redis = redis_off, maria = maria_off\<rparr>"

definition redis_mute :: world where
  "redis_mute = \<lparr>files = holding [], chroma = chroma_off,
                  redis = redis_off\<lparr>redis_connect := True, redis_ping := None\<rparr>,
                  maria = maria_off\<rparr>"


section \<open>The embedding function (redis.ts, mariadb.ts)\<close>

text \<open>\<open>simpleTextEmbedding\<close>, with exact real arithmetic in place of the floating-point
  numbers. The inner loop adds \<open>charCode / 1000\<close> at \<open>(charCode + idx) % dimensions\<close> for
  each character of one word; \<open>forEach\<close> runs it over the words with their positions.\<close>

fun embed_word :: "nat \<Rightarrow> nat \<Rightarrow> string \<Rightarrow> real list \<Rightarrow> real list" where
  "embed_word dimensions idx [] vector = vector"
| "embed_word dimensions idx (c # cs) vector =
     (let charCode = (of_char c :: nat);
          position = (charCode + idx) mod dimensions
      in embed_word dimensions idx cs
           (vector[position := vector ! position + real charCode / 1000]))"

fun embed_words :: "nat \<Rightarrow> nat \<Rightarrow> string list \<Rightarrow> real list \<Rightarrow> real list" where
  "embed_words dimensions idx [] vector = vector"
| "embed_words dimensions idx (word # words) vector =
     embed_words dimensions (Suc idx) words (embed_word dimensions idx word vector)"

text \<open>\<open>Math.sqrt(vector.reduce((sum, val) => sum + val * val, 0))\<close>\<close>

definition magnitude :: "real list \<Rightarrow> real" where
  "magnitude vector = sqrt (foldl (\<lambda>sum val. sum + val * val) 0 vector)"

definition simpleTextEmbedding :: "string \<Rightarrow> nat \<Rightarrow> real list" where
  "simpleTextEmbedding txt dimensions =
     (let words = split_ws (toLowerCase txt);
          vector = embed_words dimensions 0 words (replicate dimensions 0);
          m = magnitude vector
      in if m > 0 then map (\<lambda>v. v / m) vector else vector)"

text \<open>The algorithm in the words of the specification: slot \<open>j\<close> collects
  \<open>charCode / 1000\<close> of every character of the word at position \<open>idx\<close> with
  \<open>(charCode + idx) mod dimensions = j\<close>.\<close>

definition slot_sum :: "nat \<Rightarrow> string list \<Rightarrow> nat \<Rightarrow> real" where
  "slot_sum dimensions words j =
     (\<Sum>idx < length words.
        \<Sum>c \<leftarrow> words ! idx.
          if (of_char c + idx) mod dimensions = j then real (of_char c :: nat) / 1000 else 0)"


section \<open>Notions used in the statements\<close>

text \<open>The document that a Redis hash stands for.\<close>

definition as_document :: "string \<times> redis_hash \<Rightarrow> document" where
  "as_document kh =
     \<lparr>doc_id = fst kh, doc_text = h_text (snd kh),
      doc_metadata = Some (parse_metadata (h_metadata (snd kh)))\<rparr>"


text \<open>The decimal numeral of a number, as a version string spells it.\<close>

fun decimal :: "nat \<Rightarrow> string" where
  "decimal n = (if n < 10 then [char_of (48 + n)] else decimal (n div 10) @ [char_of (48 + n mod 10)])"

declare decimal.simps [simp del]

text \<open>The statements that read the version or create the table.\<close>

definition layout_statements :: "sql list \<Rightarrow> sql list" where
  "layout_statements qs = filter (\<lambda>q. q = SelectVersion \<or> q = CreateTableVector \<or> q = CreateTableJson) qs"

text \<open>The statement that creates the table in the layout for a version.\<close>

definition layout_for :: "string \<Rightarrow> sql" where
  "layout_for version = (if checkVectorSupport version then CreateTableVector else CreateTableJson)"

definition connected :: maria_store where
  "connected = \<lparr>connection = True, sent = []\<rparr>"


text \<open>The vector before normalisation.\<close>

definition raw_vector :: "string \<Rightarrow> nat \<Rightarrow> real list" where
  "raw_vector txt d = embed_words d 0 (split_ws (toLowerCase txt)) (replicate d 0)"


section \<open>The file-based store on any storage file\<close>

text \<open>
  \<open>loadDocuments\<close> returns whatever \<open>JSON.parse\<close> yields. When another writer left JSON
  that is not an array in the storage file (an object such as \<open>{}\<close>, a number, \<open>true\<close> or
  \<open>false\<close>), that value has no \<open>length\<close>, no \<open>map\<close> and cannot be spread:
  \<open>queryDocuments\<close> passes the test \<open>documents.length === 0\<close> and throws a \<open>TypeError\<close> at
  \<open>documents.map\<close>, and \<open>addDocuments\<close> throws it at \<open>[...existing, ...docs]\<close>, before it
  saves. \<open>clearCollection\<close> does not load the file. \<open>non_array\<close> marks such a file;
  \<open>content\<close> of \<open>fsys\<close> is then not read, and a save that fails leaves the file as it is.
\<close>

record storage =
  fsys :: filesystem
  non_array :: bool

definition queryDocuments_on :: "storage \<Rightarrow> string \<Rightarrow> int \<Rightarrow> error + search_result" where
  "queryDocuments_on s query nResults =
     (if non_array s then Inl TypeError else file_queryDocuments (fsys s) query nResults)"

definition addDocuments_on :: "storage \<Rightarrow> document list \<Rightarrow> (error + unit) \<times> storage" where
  "addDocuments_on s docs =
     (if non_array s then (Inl TypeError, s)
      else case file_addDocuments (fsys s) docs of (r, fs') \<Rightarrow> (r, s\<lparr>fsys := fs'\<rparr>))"

definition clearCollection_on :: "storage \<Rightarrow> (error + unit) \<times> storage" where
  "clearCollection_on s =
     (case file_clearCollection (fsys s) of
        (r, fs') \<Rightarrow>
          (r, \<lparr>fsys = fs',
               non_array = (non_array s \<and> fst (saveDocuments_try (fsys s) []) \<noteq> Inr ())\<rparr>))"


section \<open>Adding and clearing in the Redis and ChromaDB stores\<close>














section \<open>Evaluation and basic facts\<close>

lemmas str_eval =
  is_space_def lower_char_def toLowerCase_def split_ws_def char_of_def bit_Suc_0_iff

lemmas file_eval =
  file_queryDocuments_def rank_documents_def loadDocuments_def score_def js_slice0_def
  sort_by_score_desc_def metadata_or_empty_def holding_def plain_def empty_result_def Let_def



lemma split_go_nonempty: "split_go b cur s \<noteq> []"
  by (induction s arbitrary: b cur) simp_all

lemma split_ws_nonempty: "split_ws s \<noteq> []"
  by (simp add: split_ws_def split_go_nonempty)


section \<open>The file-based store: ranking\<close>

lemma length_js_slice0:
  "length (js_slice0 xs n) = (if 0 \<le> n then min (nat n) (length xs) else length xs - nat (- n))"
  by (simp add: js_slice0_def min.commute)

lemma length_sort_by_score_desc: "length (sort_by_score_desc rs) = length rs"
  by (simp add: sort_by_score_desc_def)

lemma js_slice0_map: "js_slice0 (map f xs) n = map f (js_slice0 xs n)"
  by (simp add: js_slice0_def take_map)

lemma rank_documents_eq:
  "rank_documents docs query n = js_slice0 (sort_by_score_desc (scored query docs)) n"
proof -
  let ?res = "js_slice0 (sort_by_score_desc (scored query docs)) n"
  have len: "length ?res = length (js_slice0 docs n)"
    by (simp add: length_js_slice0 length_sort_by_score_desc scored_def)
  show ?thesis
  proof (cases "length ?res > 0")
    case True
    then show ?thesis by (simp add: rank_documents_def scored_def Let_def)
  next
    case False
    with len have "js_slice0 docs n = []" and "?res = []" by simp_all
    then show ?thesis by (simp add: rank_documents_def scored_def Let_def)
  qed
qed

lemma snd_scored:
  "r \<in> set (scored query docs) \<Longrightarrow> snd r = score (split_ws (toLowerCase query)) (doc_text (fst r))"
  by (auto simp: scored_def)

lemma set_rank_documents: "set (rank_documents docs query n) \<subseteq> set (scored query docs)"
proof -
  have "set (js_slice0 xs n) \<subseteq> set xs" for xs :: "(document \<times> real) list"
    by (auto simp: js_slice0_def dest: in_set_takeD)
  then show ?thesis
    unfolding rank_documents_eq sort_by_score_desc_def by fastforce
qed

lemma sorted_js_slice0: "sorted xs \<Longrightarrow> sorted (js_slice0 xs n)"
  by (simp add: js_slice0_def)

lemma sorted_distances_rank:
  "sorted (map (\<lambda>r. 1 - snd r) (rank_documents docs query n))"
proof -
  let ?s = "sort_by_score_desc (scored query docs)"
  have "sorted (map (\<lambda>r. - snd r) ?s)"
    by (simp add: sort_by_score_desc_def)
  then have "sorted (map (\<lambda>r. 1 - snd r) ?s)"
    by (simp add: sorted_map sorted_wrt_iff_nth_less)
  then have "sorted (js_slice0 (map (\<lambda>r. 1 - snd r) ?s) n)"
    by (rule sorted_js_slice0)
  then show ?thesis
    by (simp add: rank_documents_eq js_slice0_map)
qed

lemma sort_key_const: "(\<And>x. x \<in> set xs \<Longrightarrow> f x = c) \<Longrightarrow> sort_key f xs = xs"
  by (rule sort_key_id_if_sorted) (simp add: sorted_map sorted_wrt_iff_nth_less)

lemma file_queryDocuments_rank:
  "file_queryDocuments fs query n =
     Inr \<lparr>documents = map (\<lambda>r. doc_text (fst r)) (rank_documents (loadDocuments fs) query n),
          metadatas = map (\<lambda>r. metadata_or_empty (doc_metadata (fst r)))
                        (rank_documents (loadDocuments fs) query n),
          distances = map (\<lambda>r. 1 - snd r) (rank_documents (loadDocuments fs) query n)\<rparr>"
  by (simp add: file_queryDocuments_def Let_def empty_result_def rank_documents_eq scored_def
      js_slice0_def sort_by_score_desc_def)


text \<open>
  When no document has a positive score, the sort leaves the storage order, the slice is
  not empty, and the branch with the placeholder score 0.3 is not taken: the distances
  are \<open>1 - 0\<close>.
\<close>

lemma file_query_no_match:
  assumes "loadDocuments fs \<noteq> []"
    and "\<And>d. d \<in> set (loadDocuments fs) \<Longrightarrow> score (split_ws (toLowerCase query)) (doc_text d) = 0"
  shows "file_queryDocuments fs query n =
     Inr \<lparr>documents = map doc_text (js_slice0 (loadDocuments fs) n),
          metadatas = map (\<lambda>d. metadata_or_empty (doc_metadata d)) (js_slice0 (loadDocuments fs) n),
          distances = map (\<lambda>d. 1) (js_slice0 (loadDocuments fs) n)\<rparr>"
proof -
  let ?docs = "loadDocuments fs"
  have sc: "scored query ?docs = map (\<lambda>d. (d, 0)) ?docs"
    using assms(2) by (simp add: scored_def)
  have "sort_by_score_desc (scored query ?docs) = scored query ?docs"
    unfolding sort_by_score_desc_def sc by (rule sort_key_const [where c = 0]) auto
  then have "rank_documents ?docs query n = map (\<lambda>d. (d, 0)) (js_slice0 ?docs n)"
    by (simp add: rank_documents_eq sc js_slice0_map)
  then show ?thesis
    by (simp add: file_queryDocuments_rank comp_def)
qed

text \<open>
  Claim C1. Three documents, none containing the query word, and \<open>nResults = 2\<close>: the
  store returns the first two documents in storage order, and each distance is 1, not
  the 0.7 of the placeholder score 0.3.
\<close>

theorem file_no_match_distance_is_one:
  "file_queryDocuments (holding cats3) ''zebra'' 2 =
     Inr \<lparr>documents = [''cats are great'', ''dogs are great''],
          metadatas = [''{}'', ''{}''], distances = [1, 1]\<rparr>"
  by (simp add: file_eval str_eval cats3_def)



section \<open>The file-based store: failures of the storage\<close>

lemmas file_ops =
  file_init_def file_addDocuments_def file_clearCollection_def saveDocuments_def
  saveDocuments_try_def loadDocuments_def Let_def

text \<open>
  Claim C4, as stated, fails: when the directory cannot be created, or the file cannot
  be written, \<open>addDocuments\<close> and \<open>clearCollection\<close> still complete normally, and a
  failed clear leaves the documents in the file.
\<close>

theorem file_save_failure_swallowed:
  "fst (file_addDocuments no_directory cats3) = Inr ()
   \<and> fst (file_clearCollection no_directory) = Inr ()
   \<and> fst (file_addDocuments (readonly []) cats3) = Inr ()
   \<and> fst (file_clearCollection (readonly cats3)) = Inr ()
   \<and> content (snd (file_clearCollection (readonly cats3))) = Stored cats3"
  by (simp add: file_ops no_directory_def readonly_def)

text \<open>
  Claim C4, amended. A failure to create the directory surfaces as the error of \<open>init\<close>.
  Inside \<open>saveDocuments\<close> the \<open>try\<close> block fails exactly when the directory cannot be
  created or the write throws, and the handler swallows that failure: \<open>addDocuments\<close>
  and \<open>clearCollection\<close> always complete without an error.
\<close>

theorem file_failure_semantics:
  "fst (file_init fs) = (if mkdir_fails fs then Inl FsError else Inr ())
   \<and> fst (saveDocuments_try fs docs) =
       (if mkdir_fails fs \<or> write_throws fs \<noteq> None then Inl FsError else Inr ())
   \<and> fst (file_addDocuments fs docs) = Inr ()
   \<and> fst (file_clearCollection fs) = Inr ()"
  by (simp add: file_ops split: option.split)

section \<open>The factory: health check and fallback\<close>

lemmas world_eval =
  chroma_stopped_def redis_mute_def chroma_off_def redis_off_def maria_off_def maria_version_def
  holding_def reset_def

lemmas factory_eval =
  getInstance_def initialize_def create_def getConfiguredType_def
  chroma_init_def chroma_healthCheck_def chroma_getOrCreateCollection_def
  redis_init_def redis_healthCheck_def file_init_def file_healthCheck_def Let_def

text \<open>
  Claim C2. ChromaDB is configured and no server runs, so \<open>healthCheck\<close> of the new
  instance is false. \<open>getInstance\<close> does not return the file-based store: \<open>init\<close> of the
  ChromaDB store throws, nothing catches it, and the static fields keep the
  ChromaDB instance. The next call returns that instance, which was never initialised.
\<close>

theorem factory_unhealthy_chroma_throws:
  "store_healthCheck chroma_stopped (create Chroma None) = (False, ChromaStore None False)
   \<and> getInstance chroma_stopped (Some ''chroma'') None None reset =
       (Inl ChromaNotRunning,
        \<lparr>instance_of = Some (ChromaStore None False), currentType = Some Chroma\<rparr>,
        [LogInitializing Chroma, LogCreating Chroma, New Chroma, CallInit Chroma])
   \<and> getInstance chroma_stopped (Some ''chroma'') None None
        \<lparr>instance_of = Some (ChromaStore None False), currentType = Some Chroma\<rparr> =
       (Inr (ChromaStore None False),
        \<lparr>instance_of = Some (ChromaStore None False), currentType = Some Chroma\<rparr>, [])"
  by (simp add: factory_eval world_eval str_eval)

text \<open>
  The fallback that the factory does implement: when \<open>init\<close> of the configured store
  succeeds, its health check then fails and the storage directory can be created, the
  call returns a file-based store under the type \<open>file\<close>, with one warning.
\<close>

lemma factory_fallback:
  assumes "store_init w (create t cfg) = (Inr (), inst)"
    and "fst (store_healthCheck w inst) = False"
    and "mkdir_fails (files w) = False"
  shows "getInstance w env (Some t) cfg reset =
           (Inr (FileStore cfg),
            \<lparr>instance_of = Some (FileStore cfg), currentType = Some File\<rparr>,
            [LogInitializing t, LogCreating t, New t, CallInit t, CallHealthCheck t,
             WarnHealthCheckFailed t, New File, CallInit File])"
  using assms
  by (auto simp: getInstance_def initialize_def reset_def file_init_def Let_def split: prod.splits)

lemma factory_fallback_redis:
  "getInstance redis_mute (Some ''redis'') None None reset =
     (Inr (FileStore None),
      \<lparr>instance_of = Some (FileStore None), currentType = Some File\<rparr>,
      [LogInitializing Redis, LogCreating Redis, New Redis, CallInit Redis, CallHealthCheck Redis,
       WarnHealthCheckFailed Redis, New File, CallInit File])
   \<and> store_type_of (FileStore None) = File
   \<and> store_collectionName (FileStore None) = ''clonewriter''
   \<and> fst (file_getOrCreateCollection None (files redis_mute)) = ''clonewriter''"
  by (simp add: factory_eval world_eval str_eval collectionName_of_def
      file_getOrCreateCollection_def)






section \<open>The Redis store: the keyword scan\<close>

lemma insort_key_map:
  "insort_key f (g x) (map g ys) = map g (insort_key (\<lambda>y. f (g y)) x ys)"
  by (induction ys) simp_all

lemma sort_key_map: "sort_key f (map g xs) = map g (sort_key (\<lambda>x. f (g x)) xs)"
  by (induction xs) (simp_all add: insort_key_map)

lemmas redis_eval = redis_queryDocuments_def redis_keywordSearch_def knn_down_def hash_of_def
  parse_metadata_def score_def js_slice0_def sort_by_score_desc_def Let_def

text \<open>The scan ranks the hashes exactly as the file-based store ranks the documents
  they stand for.\<close>

lemma redis_keywordSearch_file:
  assumes "redis_keys srv = Some keys"
  shows "redis_keywordSearch srv query n =
           file_queryDocuments (holding (map as_document keys)) query n"
proof -
  let ?ws = "split_ws (toLowerCase query)"
  let ?sorted = "sort_key (\<lambda>kh. - score ?ws (h_text (snd kh))) keys"
  have r: "sort_by_score_desc
             (map (\<lambda>(key, doc). ((h_text doc, parse_metadata (h_metadata doc)),
                                 score ?ws (h_text doc))) keys)
         = map (\<lambda>(key, doc). ((h_text doc, parse_metadata (h_metadata doc)),
                                 score ?ws (h_text doc))) ?sorted"
    unfolding sort_by_score_desc_def
    by (subst sort_key_map) (simp add: case_prod_beta)
  have f: "sort_by_score_desc (scored query (map as_document keys))
         = map (\<lambda>kh. (as_document kh, score ?ws (h_text (snd kh)))) ?sorted"
    unfolding sort_by_score_desc_def scored_def map_map comp_def
    by (subst sort_key_map) (simp add: as_document_def)
  have l: "loadDocuments (holding (map as_document keys)) = map as_document keys"
    by (simp add: holding_def loadDocuments_def)
  show ?thesis
    using assms
    by (simp add: file_queryDocuments_rank rank_documents_eq l f
        redis_keywordSearch_def Let_def r js_slice0_map comp_def case_prod_beta
        as_document_def metadata_or_empty_def)
qed

text \<open>
  Claim C3, as stated, fails: with a failing KNN query the results are ranked by their
  scores and the distances are \<open>1 - score\<close>, here 0 and 1, not a fixed 0.5.
\<close>

theorem redis_fallback_ranks_by_score:
  "redis_queryDocuments (knn_down [''birds fly'', ''cats are great'']) True ''cats'' 4 =
     Inr \<lparr>documents = [''cats are great'', ''birds fly''],
          metadatas = [''{}'', ''{}''], distances = [0, 1]\<rparr>"
  by (simp add: redis_eval str_eval)

text \<open>
  Claim C3, amended. With an initialised client, a failing KNN query is not propagated:
  \<open>queryDocuments\<close> scans the hashes under the collection prefix and returns what the
  file-based store returns for the same documents, ranked by descending score, with the
  distance \<open>1 - score\<close> for each.
\<close>

theorem redis_knn_failure_keyword_scan:
  assumes "ft_search srv = None" and "redis_keys srv = Some keys"
  shows "redis_queryDocuments srv True query n =
           file_queryDocuments (holding (map as_document keys)) query n
       \<and> (\<exists>r. redis_queryDocuments srv True query n = Inr r
              \<and> distances r = map (\<lambda>t. 1 - score (split_ws (toLowerCase query)) t) (documents r)
              \<and> sorted (distances r))"
proof -
  let ?fs = "holding (map as_document keys)"
  let ?rk = "rank_documents (loadDocuments ?fs) query n"
  have e: "redis_queryDocuments srv True query n = file_queryDocuments ?fs query n"
    using assms by (simp add: redis_queryDocuments_def redis_keywordSearch_file)
  have d: "map (\<lambda>r. 1 - snd r) ?rk
         = map (\<lambda>t. 1 - score (split_ws (toLowerCase query)) t) (map (\<lambda>r. doc_text (fst r)) ?rk)"
    using set_rank_documents [of "loadDocuments ?fs" query n]
      snd_scored [of _ query "loadDocuments ?fs"]
    by (auto simp: subset_iff)
  show ?thesis
    unfolding e file_queryDocuments_rank
    using d sorted_distances_rank [of "loadDocuments ?fs" query n] by simp
qed

theorem redis_knn_failure_keyword_scan_witness:
  "ft_search (knn_down [''birds fly'', ''cats are great'']) = None
   \<and> redis_keys (knn_down [''birds fly'', ''cats are great''])
       = Some (map hash_of [''birds fly'', ''cats are great''])
   \<and> redis_queryDocuments (knn_down [''birds fly'', ''cats are great'']) True ''cats'' 1
       = file_queryDocuments
           (holding (map as_document (map hash_of [''birds fly'', ''cats are great''])))
           ''cats'' 1"
  using redis_knn_failure_keyword_scan
    [of "knn_down [''birds fly'', ''cats are great'']"
        "map hash_of [''birds fly'', ''cats are great'']" "''cats''" 1]
  by (simp add: knn_down_def)

text \<open>An error of the scan itself is not caught.\<close>

lemma redis_scan_failure_propagates:
  "ft_search srv = None \<Longrightarrow> redis_keys srv = None \<Longrightarrow>
     redis_queryDocuments srv True query n = Inl RedisError"
  by (simp add: redis_queryDocuments_def redis_keywordSearch_def)


section \<open>The shape of a result\<close>





section \<open>The MariaDB store: the version and the table layout\<close>

lemma of_char_digit: "(d::nat) < 10 \<Longrightarrow> (of_char (char_of (48 + d) :: char) :: nat) = 48 + d"
  by (simp add: of_char_of)

lemma is_digit_char_of: "(d::nat) < 10 \<Longrightarrow> is_digit (char_of (48 + d))"
  by (simp add: is_digit_def of_char_digit)

lemma digits_decimal: "list_all is_digit (decimal n)"
proof (induction n rule: decimal.induct)
  case (1 n)
  then show ?case
    by (subst decimal.simps) (simp add: is_digit_char_of)
qed

lemma decimal_nonempty: "decimal n \<noteq> []"
  by (subst decimal.simps) simp

lemma parseInt_snoc: "parseInt (ds @ [c]) = 10 * parseInt ds + (of_char c - 48)"
  by (simp add: parseInt_def)

lemma parseInt_decimal: "parseInt (decimal n) = n"
proof (induction n rule: decimal.induct)
  case (1 n)
  show ?case
  proof (cases "n < 10")
    case True
    then show ?thesis
      by (subst decimal.simps) (simp add: parseInt_def of_char_digit)
  next
    case False
    with 1 have "parseInt (decimal (n div 10)) = n div 10" by simp
    with False show ?thesis
      by (subst decimal.simps) (simp add: parseInt_snoc of_char_digit)
  qed
qed

lemma takeWhile_digits:
  "list_all is_digit ds \<Longrightarrow> rest = [] \<or> \<not> is_digit (hd rest) \<Longrightarrow>
     takeWhile is_digit (ds @ rest) = ds \<and> dropWhile is_digit (ds @ rest) = rest"
  by (induction ds) (cases rest; auto)+

lemma not_digit_dot: "\<not> is_digit CHR ''.''"
  by (simp add: is_digit_def)

lemma match_version_digits:
  assumes "list_all is_digit g1" "g1 \<noteq> []" "list_all is_digit g2" "g2 \<noteq> []"
    and "rest = [] \<or> \<not> is_digit (hd rest)"
  shows "match_version (g1 @ ''.'' @ g2 @ rest) = Some (g1, g2)"
proof -
  have a: "takeWhile is_digit (g1 @ ''.'' @ g2 @ rest) = g1
         \<and> dropWhile is_digit (g1 @ ''.'' @ g2 @ rest) = ''.'' @ g2 @ rest"
    using assms(1) by (intro takeWhile_digits) (simp_all add: not_digit_dot)
  have b: "takeWhile is_digit (g2 @ rest) = g2"
    using assms(3,5) takeWhile_digits by blast
  show ?thesis
    using a b assms(2,4) by (simp add: match_version_def Let_def)
qed

lemma match_version_SomeD:
  assumes "match_version version = Some (g1, g2)"
  shows "\<exists>rest. version = g1 @ ''.'' @ g2 @ rest
           \<and> list_all is_digit g1 \<and> g1 \<noteq> [] \<and> list_all is_digit g2 \<and> g2 \<noteq> []
           \<and> (rest = [] \<or> \<not> is_digit (hd rest))"
proof -
  let ?r = "dropWhile is_digit version"
  from assms obtain r' where r: "?r = CHR ''.'' # r'"
    and g1: "g1 = takeWhile is_digit version" "g1 \<noteq> []"
    and g2: "g2 = takeWhile is_digit r'" "g2 \<noteq> []"
    by (auto simp: match_version_def Let_def split: if_splits list.splits)
  have v: "version = g1 @ ''.'' @ g2 @ dropWhile is_digit r'"
    using takeWhile_dropWhile_id [of is_digit version] takeWhile_dropWhile_id [of is_digit r'] r g1 g2
    by simp
  have d: "list_all is_digit g1" "list_all is_digit g2"
    using g1 g2 by (auto simp: list_all_iff dest: set_takeWhileD)
  have e: "dropWhile is_digit r' = [] \<or> \<not> is_digit (hd (dropWhile is_digit r'))"
    using hd_dropWhile [of is_digit r'] by blast
  show ?thesis using v d g1 g2 e by blast
qed

lemma checkVectorSupport_decimal:
  assumes "rest = [] \<or> \<not> is_digit (hd rest)"
  shows "checkVectorSupport (decimal major @ ''.'' @ decimal minor @ rest)
           = (11 < major \<or> (major = 11 \<and> 6 \<le> minor))"
  using match_version_digits [OF digits_decimal decimal_nonempty digits_decimal decimal_nonempty assms]
  by (simp add: checkVectorSupport_def parseInt_decimal)

lemmas maria_eval =
  maria_init_def createTableIfNotExists_def maria_getOrCreateCollection_def send_def
  maria_version_def fresh_maria_def connected_def layout_for_def checkVectorSupport_def
  match_version_def parseInt_def is_digit_def collectionName_of_def Let_def

text \<open>
  Claim C9, as stated, fails in its "only then": after \<open>init\<close> has chosen the layout,
  \<open>getOrCreateCollection\<close> whose count query fails reads the version and creates the
  table again.
\<close>

theorem maria_layout_chosen_again:
  "sent (snd (maria_init (maria_version ''11.6.2-MariaDB'') fresh_maria))
     = [CreateDatabase, UseDatabase, SelectVersion, CreateTableVector]
   \<and> sent (snd (maria_getOrCreateCollection None
                   ((maria_version ''11.6.2-MariaDB'')\<lparr>count_reply := None\<rparr>)
                   (snd (maria_init (maria_version ''11.6.2-MariaDB'') fresh_maria))))
     = [CreateDatabase, UseDatabase, SelectVersion, CreateTableVector,
        SelectCount, SelectVersion, CreateTableVector]"
  by (simp add: maria_eval)

lemma layout_statements_append:
  "layout_statements (qs @ qs') = layout_statements qs @ layout_statements qs'"
  by (simp add: layout_statements_def)

lemma layout_statements_inserts: "layout_statements (map (\<lambda>doc. InsertRow) docs) = []"
  by (induction docs) (simp_all add: layout_statements_def)

lemma maria_init_sent:
  assumes "fst (maria_init srv fresh_maria) = Inr ()"
  shows "\<exists>v. version_reply srv = Some v
           \<and> sent (snd (maria_init srv fresh_maria))
               = [CreateDatabase, UseDatabase, SelectVersion,
                  layout_for (case v of None \<Rightarrow> [] | Some s \<Rightarrow> s)]"
  using assms
  by (auto simp: maria_init_def createTableIfNotExists_def send_def fresh_maria_def layout_for_def
      Let_def split: if_splits option.splits)

lemma maria_getOrCreateCollection_layout:
  "(layout_statements (sent (snd (maria_getOrCreateCollection cfg srv st)))
      \<noteq> layout_statements (sent st)) = (connection st \<and> count_reply srv = None)"
  by (auto simp: maria_getOrCreateCollection_def createTableIfNotExists_def send_def Let_def
      layout_statements_def split: option.splits if_splits)

text \<open>
  Claim C9, amended. A version string that spells \<open>major.minor\<close> in decimal, followed
  by anything that does not continue the minor number, has vector support exactly when
  \<open>major > 11\<close> or \<open>major = 11\<close> and \<open>minor \<ge> 6\<close>; a string with vector support starts
  with digits, a dot and digits, so every other string selects the JSON layout.
  \<open>createTableIfNotExists\<close> reads the version and creates the table in the layout for it;
  a successful \<open>init\<close> does so once. \<open>addDocuments\<close>, \<open>queryDocuments\<close>,
  \<open>clearCollection\<close> and \<open>healthCheck\<close> never read the version or create the table;
  \<open>getOrCreateCollection\<close> does so again exactly when it has a connection and its count
  query fails.
\<close>

theorem maria_layout_choice:
  "((rest = [] \<or> \<not> is_digit (hd rest)) \<longrightarrow>
      checkVectorSupport (decimal major @ ''.'' @ decimal minor @ rest)
        = (11 < major \<or> (major = 11 \<and> 6 \<le> minor)))
   \<and> (checkVectorSupport version \<longrightarrow>
        (\<exists>g1 g2 rest'. version = g1 @ ''.'' @ g2 @ rest'
           \<and> list_all is_digit g1 \<and> g1 \<noteq> [] \<and> list_all is_digit g2 \<and> g2 \<noteq> []))
   \<and> (version_reply srv = Some v \<longrightarrow>
        sent (snd (createTableIfNotExists srv connected))
          = [SelectVersion, layout_for (case v of None \<Rightarrow> [] | Some s \<Rightarrow> s)])
   \<and> (fst (maria_init srv fresh_maria) = Inr () \<longrightarrow>
        (\<exists>v'. version_reply srv = Some v'
           \<and> sent (snd (maria_init srv fresh_maria))
               = [CreateDatabase, UseDatabase, SelectVersion,
                  layout_for (case v' of None \<Rightarrow> [] | Some s \<Rightarrow> s)]))
   \<and> layout_statements (sent (snd (maria_addDocuments srv st docs))) = layout_statements (sent st)
   \<and> layout_statements (sent (snd (maria_queryDocuments srv st query n)))
       = layout_statements (sent st)
   \<and> layout_statements (sent (snd (maria_clearCollection srv st))) = layout_statements (sent st)
   \<and> layout_statements (sent (snd (maria_healthCheck srv st))) = layout_statements (sent st)
   \<and> ((layout_statements (sent (snd (maria_getOrCreateCollection cfg srv st)))
         \<noteq> layout_statements (sent st)) = (connection st \<and> count_reply srv = None))"
proof (intro conjI impI)
  assume "rest = [] \<or> \<not> is_digit (hd rest)"
  then show "checkVectorSupport (decimal major @ ''.'' @ decimal minor @ rest)
        = (11 < major \<or> (major = 11 \<and> 6 \<le> minor))"
    by (rule checkVectorSupport_decimal)
next
  assume "checkVectorSupport version"
  then obtain g1 g2 where "match_version version = Some (g1, g2)"
    by (auto simp: checkVectorSupport_def split: option.splits)
  from match_version_SomeD [OF this]
  show "\<exists>g1 g2 rest'. version = g1 @ ''.'' @ g2 @ rest'
           \<and> list_all is_digit g1 \<and> g1 \<noteq> [] \<and> list_all is_digit g2 \<and> g2 \<noteq> []"
    by blast
next
  assume "version_reply srv = Some v"
  then show "sent (snd (createTableIfNotExists srv connected))
          = [SelectVersion, layout_for (case v of None \<Rightarrow> [] | Some s \<Rightarrow> s)]"
    by (simp add: createTableIfNotExists_def connected_def send_def layout_for_def Let_def)
next
  assume "fst (maria_init srv fresh_maria) = Inr ()"
  then show "\<exists>v'. version_reply srv = Some v'
           \<and> sent (snd (maria_init srv fresh_maria))
               = [CreateDatabase, UseDatabase, SelectVersion,
                  layout_for (case v' of None \<Rightarrow> [] | Some s \<Rightarrow> s)]"
    by (rule maria_init_sent)
next
  show "layout_statements (sent (snd (maria_addDocuments srv st docs))) = layout_statements (sent st)"
    by (simp add: maria_addDocuments_def send_def layout_statements_append
        layout_statements_inserts) (simp add: layout_statements_def)
next
  show "layout_statements (sent (snd (maria_queryDocuments srv st query n)))
       = layout_statements (sent st)"
    by (simp add: maria_queryDocuments_def maria_keywordSearch_def send_def layout_statements_def
        split: option.splits)
next
  show "layout_statements (sent (snd (maria_clearCollection srv st))) = layout_statements (sent st)"
    by (simp add: maria_clearCollection_def send_def layout_statements_def)
next
  show "layout_statements (sent (snd (maria_healthCheck srv st))) = layout_statements (sent st)"
    by (simp add: maria_healthCheck_def send_def layout_statements_def)
next
  show "(layout_statements (sent (snd (maria_getOrCreateCollection cfg srv st)))
         \<noteq> layout_statements (sent st)) = (connection st \<and> count_reply srv = None)"
    by (rule maria_getOrCreateCollection_layout)
qed

theorem maria_layout_choice_witness:
  "(''-MariaDB'' = [] \<or> \<not> is_digit (hd ''-MariaDB''))
   \<and> checkVectorSupport (decimal 11 @ ''.'' @ decimal 6 @ ''-MariaDB'')
   \<and> \<not> checkVectorSupport (decimal 10 @ ''.'' @ decimal 11 @ ''.6-MariaDB'')
   \<and> version_reply (maria_version ''10.11.6-MariaDB'') = Some (Some ''10.11.6-MariaDB'')
   \<and> sent (snd (createTableIfNotExists (maria_version ''10.11.6-MariaDB'') connected))
       = [SelectVersion, CreateTableJson]
   \<and> fst (maria_init (maria_version ''10.11.6-MariaDB'') fresh_maria) = Inr ()"
proof -
  have h1: "''-MariaDB'' = [] \<or> \<not> is_digit (hd ''-MariaDB'')"
    by (simp add: is_digit_def)
  have h2: "''.6-MariaDB'' = [] \<or> \<not> is_digit (hd ''.6-MariaDB'')"
    by (simp add: is_digit_def)
  have h3: "version_reply (maria_version ''10.11.6-MariaDB'') = Some (Some ''10.11.6-MariaDB'')"
    by (simp add: maria_version_def)
  have h4: "fst (maria_init (maria_version ''10.11.6-MariaDB'') fresh_maria) = Inr ()"
    by (simp add: maria_eval)
  have l: "layout_for ''10.11.6-MariaDB'' = CreateTableJson"
    by (simp add: maria_eval)
  show ?thesis
    using maria_layout_choice [of "''-MariaDB''" 11 6 "[]"
        "maria_version ''10.11.6-MariaDB''" "Some ''10.11.6-MariaDB''"]
      maria_layout_choice [of "''.6-MariaDB''" 10 11]
      h1 h2 h3 h4 l
    by simp
qed


section \<open>The embedding function\<close>

lemma length_embed_word [simp]: "length (embed_word d idx w v) = length v"
  by (induction w arbitrary: v) (simp_all add: Let_def)

lemma length_embed_words [simp]: "length (embed_words d idx ws v) = length v"
  by (induction ws arbitrary: idx v) simp_all

lemma sum_list_add_at:
  "p < length v \<Longrightarrow> sum_list (v[p := v ! p + x]) = sum_list v + (x::real)"
proof (induction v arbitrary: p)
  case Nil
  then show ?case by simp
next
  case (Cons a v)
  then show ?case by (cases p) simp_all
qed

text \<open>Each character adds its share to exactly one slot, so the sum of the slots
  grows by the shares of all characters.\<close>

lemma sum_list_embed_word:
  assumes "length v = d" and "0 < d"
  shows "sum_list (embed_word d idx w v) = sum_list v + (\<Sum>c\<leftarrow>w. real (of_char c) / 1000)"
  using assms
proof (induction w arbitrary: v)
  case Nil
  then show ?case by simp
next
  case (Cons c w)
  let ?p = "(of_char c + idx) mod d"
  let ?v = "v[?p := v ! ?p + real (of_char c) / 1000]"
  have "?p < length v" using Cons.prems by simp
  then have "sum_list ?v = sum_list v + real (of_char c) / 1000"
    by (rule sum_list_add_at)
  moreover have "sum_list (embed_word d idx w ?v) = sum_list ?v + (\<Sum>c\<leftarrow>w. real (of_char c) / 1000)"
    using Cons.prems by (intro Cons.IH) simp_all
  ultimately show ?case by (simp add: Let_def)
qed

lemma sum_list_embed_words:
  assumes "length v = d" and "0 < d"
  shows "sum_list (embed_words d idx ws v)
           = sum_list v + (\<Sum>c\<leftarrow>concat ws. real (of_char c) / 1000)"
  using assms
proof (induction ws arbitrary: idx v)
  case Nil
  then show ?case by simp
next
  case (Cons w ws)
  have "sum_list (embed_words d (Suc idx) ws (embed_word d idx w v))
          = sum_list (embed_word d idx w v) + (\<Sum>c\<leftarrow>concat ws. real (of_char c) / 1000)"
    using Cons.prems by (intro Cons.IH) simp_all
  then show ?case
    using Cons.prems by (simp add: sum_list_embed_word)
qed

lemma nonneg_embed_word:
  "\<forall>x\<in>set v. 0 \<le> x \<Longrightarrow> \<forall>x\<in>set (embed_word d idx w v). 0 \<le> x"
proof (induction w arbitrary: v)
  case Nil
  then show ?case by simp
next
  case (Cons c w)
  let ?p = "(of_char c + idx) mod d"
  have "\<forall>x\<in>set (v[?p := v ! ?p + real (of_char c) / 1000]). 0 \<le> x"
  proof
    fix x assume "x \<in> set (v[?p := v ! ?p + real (of_char c) / 1000])"
    then have "x \<in> set v \<or> (x = v ! ?p + real (of_char c) / 1000 \<and> ?p < length v)"
      by (cases "?p < length v") (auto simp: list_update_beyond dest: set_update_subset_insert [THEN subsetD])
    then show "0 \<le> x"
      using Cons.prems by (auto simp: nth_mem intro: add_nonneg_nonneg)
  qed
  then show ?case
    using Cons.IH by (simp add: Let_def)
qed

lemma nonneg_embed_words:
  "\<forall>x\<in>set v. 0 \<le> x \<Longrightarrow> \<forall>x\<in>set (embed_words d idx ws v). 0 \<le> x"
proof (induction ws arbitrary: idx v)
  case Nil
  then show ?case by simp
next
  case (Cons w ws)
  from Cons.prems have "\<forall>x\<in>set (embed_word d idx w v). 0 \<le> x"
    by (rule nonneg_embed_word)
  then have "\<forall>x\<in>set (embed_words d (Suc idx) ws (embed_word d idx w v)). 0 \<le> x"
    by (rule Cons.IH)
  then show ?case by simp
qed

lemma foldl_squares:
  "foldl (\<lambda>sum val. sum + val * val) a v = a + (\<Sum>x\<leftarrow>v. x * x)" for a :: real
  by (induction v arbitrary: a) simp_all

lemma magnitude_sum: "magnitude v = sqrt (\<Sum>x\<leftarrow>v. x * x)"
  by (simp add: magnitude_def foldl_squares)

lemma magnitude_nonneg: "0 \<le> magnitude v"
proof -
  have "0 \<le> (\<Sum>x\<leftarrow>v. x * x)" by (rule sum_list_nonneg) auto
  then show ?thesis by (simp add: magnitude_sum)
qed

lemma magnitude_zero_iff: "magnitude v = 0 \<longleftrightarrow> (\<forall>x\<in>set v. x = 0)"
proof -
  have "(\<Sum>x\<leftarrow>v. x * x) = 0 \<longleftrightarrow> (\<forall>x\<in>set v. x = 0)"
    by (subst sum_list_nonneg_eq_0_iff) auto
  then show ?thesis by (simp add: magnitude_sum)
qed

text \<open>Dividing by a positive magnitude gives a vector of magnitude 1.\<close>

lemma magnitude_normalized:
  assumes "0 < magnitude v"
  shows "magnitude (map (\<lambda>x. x / magnitude v) v) = 1"
proof -
  let ?s = "\<Sum>x\<leftarrow>v. x * x"
  have s: "0 < ?s" using assms by (simp add: magnitude_sum)
  have m: "magnitude v * magnitude v = ?s"
    using s by (simp add: magnitude_sum)
  have "(\<Sum>x\<leftarrow>map (\<lambda>x. x / magnitude v) v. x * x) = (\<Sum>x\<leftarrow>v. (x * x) * (1 / ?s))"
    by (simp add: comp_def m)
  also have "\<dots> = ?s * (1 / ?s)"
    by (rule sum_list_mult_const)
  finally show ?thesis using s by (simp add: magnitude_sum)
qed

text \<open>The words of a split are the text without its white space.\<close>

lemma concat_split_go:
  "concat (split_go b cur s) = rev cur @ filter (\<lambda>c. \<not> is_space c) s"
  by (induction s arbitrary: b cur) simp_all

lemma concat_split_ws: "concat (split_ws s) = filter (\<lambda>c. \<not> is_space c) s"
  by (simp add: split_ws_def concat_split_go)

lemma of_char_lower_char:
  "(of_char (lower_char c) :: nat) =
     (let n = of_char c
      in if (65 \<le> n \<and> n \<le> 90) \<or> (192 \<le> n \<and> n \<le> 222 \<and> n \<noteq> 215) then n + 32 else n)"
  by (simp add: lower_char_def Let_def of_char_of)

lemma is_space_lower_char: "is_space (lower_char c) = is_space c"
  by (auto simp: is_space_def of_char_lower_char Let_def)

lemma lower_char_zero: "((of_char (lower_char c) :: nat) = 0) = ((of_char c :: nat) = 0)"
  by (auto simp: of_char_lower_char Let_def)

text \<open>The slots before normalisation.\<close>

lemma nth_embed_word:
  assumes "j < length v" and "length v = d"
  shows "embed_word d idx w v ! j
           = v ! j + (\<Sum>c\<leftarrow>w. if (of_char c + idx) mod d = j then real (of_char c) / 1000 else 0)"
  using assms
proof (induction w arbitrary: v)
  case Nil
  then show ?case by simp
next
  case (Cons c w)
  let ?p = "(of_char c + idx) mod d"
  let ?v = "v[?p := v ! ?p + real (of_char c) / 1000]"
  have p: "?p < length v" using Cons.prems by simp
  have "embed_word d idx w ?v ! j
          = ?v ! j + (\<Sum>c\<leftarrow>w. if (of_char c + idx) mod d = j then real (of_char c) / 1000 else 0)"
    using Cons.prems by (intro Cons.IH) simp_all
  moreover have "?v ! j = v ! j + (if ?p = j then real (of_char c) / 1000 else 0)"
    using p Cons.prems by (simp add: nth_list_update)
  ultimately show ?case by (simp add: Let_def)
qed

lemma nth_embed_words:
  assumes "j < length v" and "length v = d"
  shows "embed_words d i ws v ! j
           = v ! j + (\<Sum>k<length ws. \<Sum>c\<leftarrow>ws ! k.
                        if (of_char c + (i + k)) mod d = j then real (of_char c) / 1000 else 0)"
  using assms
proof (induction ws arbitrary: i v)
  case Nil
  then show ?case by simp
next
  case (Cons w ws)
  have "embed_words d (Suc i) ws (embed_word d i w v) ! j
          = embed_word d i w v ! j
            + (\<Sum>k<length ws. \<Sum>c\<leftarrow>ws ! k.
                 if (of_char c + (Suc i + k)) mod d = j then real (of_char c) / 1000 else 0)"
    using Cons.prems by (intro Cons.IH) simp_all
  then show ?case
    using Cons.prems by (simp add: nth_embed_word sum.lessThan_Suc_shift del: sum.lessThan_Suc)
qed

lemma raw_vector_slots:
  "embed_words d 0 words (replicate d 0) = map (slot_sum d words) [0..<d]"
  by (rule nth_equalityI) (simp_all add: nth_embed_words slot_sum_def)

lemma sum_list_raw_vector:
  assumes "0 < d"
  shows "sum_list (raw_vector txt d)
           = (\<Sum>c\<leftarrow>filter (\<lambda>c. \<not> is_space c) (toLowerCase txt). real (of_char c) / 1000)"
  using assms by (simp add: raw_vector_def sum_list_embed_words concat_split_ws sum_list_replicate)

lemma nonneg_raw_vector: "\<forall>x\<in>set (raw_vector txt d). 0 \<le> x"
  unfolding raw_vector_def by (rule nonneg_embed_words) simp

lemma raw_vector_positive:
  assumes "0 < d" and "c \<in> set txt" and "\<not> is_space c" and "(of_char c :: nat) \<noteq> 0"
  shows "0 < magnitude (raw_vector txt d)"
proof -
  let ?cs = "filter (\<lambda>c. \<not> is_space c) (toLowerCase txt)"
  have "lower_char c \<in> set ?cs"
    using assms(2,3) by (simp add: toLowerCase_def is_space_lower_char)
  then have "real (of_char (lower_char c)) / 1000 \<in> set (map (\<lambda>c. real (of_char c) / 1000) ?cs)"
    by simp
  moreover have "\<forall>x\<in>set (map (\<lambda>c. real (of_char c) / 1000) ?cs). 0 \<le> x"
    by auto
  ultimately have "real (of_char (lower_char c)) / 1000 \<le> sum_list (raw_vector txt d)"
    unfolding sum_list_raw_vector [OF assms(1)] by (intro member_le_sum_list) auto
  moreover have "0 < real (of_char (lower_char c)) / 1000"
    using assms(4) lower_char_zero [of c] by simp
  ultimately have "sum_list (raw_vector txt d) \<noteq> 0" by simp
  then have "\<not> (\<forall>x\<in>set (raw_vector txt d). x = 0)"
    using nonneg_raw_vector [of "txt" d] by (simp add: sum_list_nonneg_eq_0_iff)
  then have "magnitude (raw_vector txt d) \<noteq> 0"
    by (simp add: magnitude_zero_iff)
  then show ?thesis using magnitude_nonneg [of "raw_vector txt d"] by simp
qed

lemma raw_vector_zero:
  assumes "0 < d" and "\<forall>c\<in>set txt. is_space c \<or> (of_char c :: nat) = 0"
  shows "raw_vector txt d = replicate d 0"
proof -
  let ?cs = "filter (\<lambda>c. \<not> is_space c) (toLowerCase txt)"
  have "\<forall>c\<in>set ?cs. (of_char c :: nat) = 0"
    using assms(2) by (auto simp: toLowerCase_def is_space_lower_char lower_char_zero)
  then have "map (\<lambda>c. real (of_char c) / 1000) ?cs = map (\<lambda>c. 0) ?cs"
    by (intro map_cong) auto
  then have "sum_list (map (\<lambda>c. real (of_char c) / 1000) ?cs) = 0"
    by (simp only: sum_list_0)
  then have "sum_list (raw_vector txt d) = 0"
    by (simp only: sum_list_raw_vector [OF assms(1)])
  then have "\<forall>x\<in>set (raw_vector txt d). x = 0"
    using nonneg_raw_vector [of "txt" d] by (simp add: sum_list_nonneg_eq_0_iff)
  moreover have "length (raw_vector txt d) = d" by (simp add: raw_vector_def)
  ultimately show ?thesis
    by (metis replicate_eqI)
qed

lemma embedding_unit:
  assumes "0 < d" and "c \<in> set txt" and "\<not> is_space c" and "(of_char c :: nat) \<noteq> 0"
  shows "magnitude (simpleTextEmbedding txt d) = 1"
  using raw_vector_positive [OF assms] magnitude_normalized [of "raw_vector txt d"]
  by (simp add: simpleTextEmbedding_def raw_vector_def Let_def)

lemma embedding_zero:
  assumes "0 < d" and "\<forall>c\<in>set txt. is_space c \<or> (of_char c :: nat) = 0"
  shows "simpleTextEmbedding txt d = replicate d 0"
proof -
  have "magnitude (replicate d 0) = 0" by (simp add: magnitude_zero_iff)
  then show ?thesis
    using raw_vector_zero [OF assms]
    by (simp add: simpleTextEmbedding_def raw_vector_def Let_def)
qed

text \<open>
  Claim C6, as stated, fails: the text consisting of the character with code 0 is not
  empty and not white space, every slot stays 0, normalisation is skipped, and the
  norm of the result is 0.
\<close>

theorem embedding_nul_not_unit:
  "[char_of (0::nat)] \<noteq> []
   \<and> \<not> list_all is_space [char_of (0::nat)]
   \<and> simpleTextEmbedding [char_of (0::nat)] 384 = replicate 384 0
   \<and> magnitude (simpleTextEmbedding [char_of (0::nat)] 384) = 0"
proof -
  have z: "(of_char (char_of (0::nat)) :: nat) = 0" by (simp add: of_char_of)
  have e: "simpleTextEmbedding [char_of (0::nat)] 384 = replicate 384 0"
    by (rule embedding_zero) (simp_all add: z)
  have s: "\<not> is_space (char_of (0::nat))" by (simp add: is_space_def z)
  have m: "magnitude (replicate 384 0) = 0" by (simp add: magnitude_zero_iff)
  show ?thesis using e s m by simp
qed

text \<open>
  Claim C6, amended, in exact arithmetic and for a positive number of dimensions. The
  embedding is the vector whose slot \<open>j\<close> sums \<open>charCode / 1000\<close> over the characters of
  the lower-cased words with \<open>(charCode + idx) mod dimensions = j\<close>, divided by its
  magnitude when that is positive and left as it is otherwise; it is a function of the
  text. Its norm is 1 whenever the text has a character that is not white space and
  whose code is not 0; for every other text it is the zero vector.
\<close>

theorem embedding_properties:
  assumes "0 < dimensions"
  shows "simpleTextEmbedding txt dimensions =
           (let raw = map (slot_sum dimensions (split_ws (toLowerCase txt))) [0..<dimensions];
                m = magnitude raw
            in if m > 0 then map (\<lambda>v. v / m) raw else raw)
       \<and> length (simpleTextEmbedding txt dimensions) = dimensions
       \<and> ((\<exists>c\<in>set txt. \<not> is_space c \<and> (of_char c :: nat) \<noteq> 0) \<longrightarrow>
            magnitude (simpleTextEmbedding txt dimensions) = 1)
       \<and> ((\<forall>c\<in>set txt. is_space c \<or> (of_char c :: nat) = 0) \<longrightarrow>
            simpleTextEmbedding txt dimensions = replicate dimensions 0)"
proof (intro conjI impI)
  show "simpleTextEmbedding txt dimensions =
           (let raw = map (slot_sum dimensions (split_ws (toLowerCase txt))) [0..<dimensions];
                m = magnitude raw
            in if m > 0 then map (\<lambda>v. v / m) raw else raw)"
    by (simp add: simpleTextEmbedding_def raw_vector_slots Let_def)
next
  show "length (simpleTextEmbedding txt dimensions) = dimensions"
    by (simp add: simpleTextEmbedding_def Let_def)
next
  assume "\<exists>c\<in>set txt. \<not> is_space c \<and> (of_char c :: nat) \<noteq> 0"
  then show "magnitude (simpleTextEmbedding txt dimensions) = 1"
    using assms embedding_unit by blast
next
  assume "\<forall>c\<in>set txt. is_space c \<or> (of_char c :: nat) = 0"
  with assms show "simpleTextEmbedding txt dimensions = replicate dimensions 0"
    by (rule embedding_zero)
qed

theorem embedding_properties_witness:
  "(0::nat) < 384
   \<and> (\<exists>c\<in>set ''Hello world''. \<not> is_space c \<and> (of_char c :: nat) \<noteq> 0)
   \<and> magnitude (simpleTextEmbedding ''Hello world'' 384) = 1
   \<and> length (simpleTextEmbedding ''Hello world'' 384) = 384"
proof -
  have h: "(0::nat) < 384" by simp
  have c: "\<exists>c\<in>set ''Hello world''. \<not> is_space c \<and> (of_char c :: nat) \<noteq> 0"
    by (simp add: is_space_def)
  show ?thesis
    using embedding_properties [OF h, of "''Hello world''"] h c by blast
qed


section \<open>Add, clear, query\<close>




text \<open>A file with JSON that is not an array makes \<open>queryDocuments\<close> and \<open>addDocuments\<close>
  throw; a clear whose save succeeds replaces it by the empty array.\<close>

lemma non_array_throws:
  "queryDocuments_on \<lparr>fsys = holding [], non_array = True\<rparr> ''cats'' 4 = Inl TypeError
   \<and> fst (addDocuments_on \<lparr>fsys = holding [], non_array = True\<rparr> cats3) = Inl TypeError
   \<and> snd (clearCollection_on \<lparr>fsys = holding [], non_array = True\<rparr>)
       = \<lparr>fsys = holding [], non_array = False\<rparr>"
  by (simp add: queryDocuments_on_def addDocuments_on_def clearCollection_on_def file_ops
      holding_def)










section \<open>The shape of a result: all stores\<close>




end
